theory Spec2Isabelle
  imports Complex_Main "HOL-Library.Sublist" "HOL-Library.Word"
begin

section \<open>Python strings\<close>

text \<open>
  A Python \<open>str\<close> is modelled as a \<open>string\<close> whose characters are the code points
  0 to 255 (ASCII and the Latin-1 supplement). On this range \<open>str.lower\<close> moves
  \<open>A\<close>..\<open>Z\<close> and the accented capitals U+00C0..U+00DE (the multiplication sign
  U+00D7 apart) 32 places up and leaves every other character alone, and the characters
  that \<open>str.split()\<close> and \<open>str.strip()\<close> treat as whitespace are U+0009..U+000D,
  U+001C..U+0020, U+0085 and U+00A0.
\<close>

definition isspace :: "char \<Rightarrow> bool" where
  "isspace c =
     (let n = (of_char c :: nat)
      in (9 \<le> n \<and> n \<le> 13) \<or> (28 \<le> n \<and> n \<le> 32) \<or> n = 133 \<or> n = 160)"

definition lower_char :: "char \<Rightarrow> char" where
  "lower_char c =
     (let n = (of_char c :: nat)
      in if (65 \<le> n \<and> n \<le> 90) \<or> (192 \<le> n \<and> n \<le> 222 \<and> n \<noteq> 215)
         then char_of (n + 32) else c)"

definition str_lower :: "string \<Rightarrow> string" where
  "str_lower s = map lower_char s"

text \<open>
  \<open>s.split()\<close>: the maximal runs of non-whitespace characters, in order. The first
  argument is the word read so far.
\<close>

fun split_from :: "string \<Rightarrow> string \<Rightarrow> string list" where
  "split_from w [] = (if w = [] then [] else [w])"
| "split_from w (c # cs) =
     (if isspace c then (if w = [] then split_from [] cs else w # split_from [] cs)
      else split_from (w @ [c]) cs)"

definition str_split :: "string \<Rightarrow> string list" where
  "str_split s = split_from [] s"

text \<open>\<open>s.strip()\<close>: leading and trailing whitespace removed.\<close>

definition str_strip :: "string \<Rightarrow> string" where
  "str_strip s = rev (dropWhile isspace (rev (dropWhile isspace s)))"

text \<open>\<open>k in text\<close> on strings: \<open>k\<close> occurs in \<open>text\<close> as a contiguous substring.\<close>

fun str_contains :: "string \<Rightarrow> string \<Rightarrow> bool" where
  "str_contains k [] = (k = [])"
| "str_contains k (c # cs) = (prefix k (c # cs) \<or> str_contains k cs)"

section \<open>Python floats\<close>

text \<open>
  The only floats of \<open>ats_score\<close> are non-negative: a quotient of two non-negative
  integers and its product with 100. A float is modelled as a mantissa and a binary
  exponent, \<open>Double m e\<close> standing for \<open>m * 2 ^ e\<close>, with \<open>m = 0\<close> or
  \<open>2 ^ 52 \<le> m < 2 ^ 53\<close> (53 significant bits, as IEEE 754 binary64 has). The exponent
  is not bounded: the values here are 0 or lie between \<open>1 / len(keywords)\<close> and 100, far
  inside the range of normal binary64 numbers for any list that fits in memory.
\<close>

datatype double = Double (mantissa: int) (exponent: int)


function bit_length :: "int \<Rightarrow> int" where
  "bit_length n = (if n \<le> 0 then 0 else 1 + bit_length (n div 2))"
  by pat_completeness auto
termination
  by (relation "measure nat") auto

declare bit_length.simps [simp del]

text \<open>\<open>a / b\<close> rounded to the nearest integer, a tie going to the even neighbour.\<close>

definition round_half_even :: "int \<Rightarrow> int \<Rightarrow> int" where
  "round_half_even a b =
     (let q = a div b; r = a mod b
      in if 2 * r < b then q
         else if b < 2 * r then q + 1
         else if even q then q else q + 1)"

text \<open>
  For \<open>0 < a\<close> and \<open>0 < b\<close>, the exponent \<open>e\<close> with \<open>2 ^ e \<le> a / b < 2 ^ (e + 1)\<close>:
  the difference of the bit lengths, or one less.
\<close>

definition binade :: "int \<Rightarrow> int \<Rightarrow> int" where
  "binade a b =
     (let d = bit_length a - bit_length b
      in if (if 0 \<le> d then b * 2 ^ nat d \<le> a else b \<le> a * 2 ^ nat (- d)) then d else d - 1)"

text \<open>\<open>a / b * 2 ^ k\<close> rounded to the nearest integer, ties to even (\<open>k\<close> may be negative).\<close>

definition round_scaled :: "int \<Rightarrow> int \<Rightarrow> int \<Rightarrow> int" where
  "round_scaled a b k =
     (if 0 \<le> k then round_half_even (a * 2 ^ nat k) b
      else round_half_even a (b * 2 ^ nat (- k)))"

text \<open>
  The binary64 value nearest to the rational \<open>a / b\<close> (for \<open>0 \<le> a\<close>, \<open>0 < b\<close>),
  ties to even: the quotient is scaled into \<open>[2 ^ 52, 2 ^ 53)\<close> and rounded there; a
  mantissa rounded up to \<open>2 ^ 53\<close> is the next power of two.
\<close>

definition round_to_double :: "int \<Rightarrow> int \<Rightarrow> double" where
  "round_to_double a b =
     (if a \<le> 0 then Double 0 0
      else
        let e = binade a b;
            m = round_scaled a b (52 - e)
        in if m = 2 ^ 53 then Double (2 ^ 52) (e - 51) else Double m (e - 52))"

datatype py_error = ZeroDivisionError

text \<open>\<open>a / b\<close> on integers: true division, correctly rounded.\<close>

definition int_truediv :: "int \<Rightarrow> int \<Rightarrow> py_error + double" where
  "int_truediv a b = (if b = 0 then Inl ZeroDivisionError else Inr (round_to_double a b))"

text \<open>\<open>float(n)\<close> for an integer \<open>n\<close>.\<close>

definition double_of_int :: "int \<Rightarrow> double" where
  "double_of_int n = round_to_double n 1"

text \<open>\<open>x * y\<close> on floats: the exact product, rounded.\<close>

definition double_mul :: "double \<Rightarrow> double \<Rightarrow> double" where
  "double_mul x y =
     (let m = mantissa x * mantissa y; e = exponent x + exponent y
      in if 0 \<le> e then round_to_double (m * 2 ^ nat e) 1
         else round_to_double m (2 ^ nat (- e)))"

text \<open>\<open>int(x)\<close> on a float: the fractional part is dropped.\<close>

definition double_trunc :: "double \<Rightarrow> int" where
  "double_trunc x =
     (if 0 \<le> exponent x then mantissa x * 2 ^ nat (exponent x)
      else mantissa x div 2 ^ nat (- exponent x))"

section \<open>The ATS score\<close>

text \<open>
  \<^verbatim>\<open>
  def ats_score(text, job_role):
      if not job_role:
          return 0
      keywords = job_role.lower().split()
      text = text.lower()
      hits = sum(1 for k in keywords if k in text)
      return min(100, int((hits / max(1, len(keywords))) * 100))
  \<close>
  \<open>job_role\<close> is \<open>None\<close> or a string; both \<open>None\<close> and the empty string are falsy.
\<close>

definition keywords_of :: "string \<Rightarrow> string list" where
  "keywords_of job_role = str_split (str_lower job_role)"

definition hits_of :: "string \<Rightarrow> string list \<Rightarrow> int" where
  "hits_of text keywords = int (length (filter (\<lambda>k. str_contains k (str_lower text)) keywords))"

definition ats_score :: "string \<Rightarrow> string option \<Rightarrow> py_error + int" where
  "ats_score text job_role =
     (case job_role of
        None \<Rightarrow> Inr 0
      | Some r \<Rightarrow>
          if r = [] then Inr 0
          else
            let keywords = keywords_of r;
                hits = hits_of text keywords
            in case int_truediv hits (max 1 (int (length keywords))) of
                 Inl err \<Rightarrow> Inl err
               | Inr q \<Rightarrow> Inr (min 100 (double_trunc (double_mul q (double_of_int 100)))))"

section \<open>Collaborators outside the repository\<close>

text \<open>
  The script calls four libraries whose code is not part of the repository. Each is a
  parameter of the model: the PDF reader (the texts \<open>page.extract_text()\<close> gives for the
  pages of \<open>PyPDF2.PdfReader(...)\<close>, in page order), the UTF-8 codec, MD5, and the Gemini
  client. A call that raises returns \<open>Inl\<close>. \<open>genai_imported\<close> says whether
  \<open>import google.generativeai\<close> succeeded, \<open>google_api_key\<close> is
  \<open>os.getenv("GOOGLE_API_KEY")\<close>.
\<close>

type_synonym bytes = "8 word list"

datatype exn =
    PdfError
  | DecodeError
  | ProviderFailure
  | ArithmeticFailure py_error
  | ProgressValueError

record env =
  pdf_page_texts :: "bytes \<Rightarrow> exn + string list"
  utf8_decode :: "bytes \<Rightarrow> exn + string"
  md5_hexdigest :: "bytes \<Rightarrow> string"
  generate_content :: "string \<Rightarrow> exn + string"
  genai_imported :: bool
  google_api_key :: "string option"

record uploaded =
  name :: string
  file_bytes :: bytes

section \<open>Text extraction and hashing\<close>

text \<open>
  \<^verbatim>\<open>
  def extract_text_from_pdf(pdf_file):
      reader = PyPDF2.PdfReader(pdf_file)
      text = ""
      for page in reader.pages:
          if page.extract_text():
              text += page.extract_text() + "\n"
      return text
  \<close>
\<close>

definition newline :: char where
  "newline = CHR 0x0A"

fun join_pages :: "string list \<Rightarrow> string" where
  "join_pages [] = []"
| "join_pages (p # ps) = (if p \<noteq> [] then p @ [newline] @ join_pages ps else join_pages ps)"

definition extract_text_from_pdf :: "env \<Rightarrow> bytes \<Rightarrow> exn + string" where
  "extract_text_from_pdf E pdf_file =
     (case pdf_page_texts E pdf_file of
        Inl err \<Rightarrow> Inl err
      | Inr pages \<Rightarrow> Inr (join_pages pages))"

text \<open>
  \<^verbatim>\<open>
  def extract_text_from_file(file):
      if not file:
          return ""
      filename = file.name.lower()
      if filename.endswith(".pdf"):
          return extract_text_from_pdf(io.BytesIO(file.read()))
      else:
          return file.read().decode("utf-8")
  \<close>
\<close>

definition extract_text_from_file :: "env \<Rightarrow> uploaded option \<Rightarrow> exn + string" where
  "extract_text_from_file E file =
     (case file of
        None \<Rightarrow> Inr []
      | Some f \<Rightarrow>
          let filename = str_lower (name f)
          in if suffix ''.pdf'' filename then extract_text_from_pdf E (file_bytes f)
             else utf8_decode E (file_bytes f))"

definition file_hash :: "env \<Rightarrow> bytes \<Rightarrow> string" where
  "file_hash E bs = md5_hexdigest E bs"

section \<open>Prompt and demo feedback\<close>

definition unlines :: "string list \<Rightarrow> string" where
  "unlines ls = concat (map (\<lambda>l. l @ [newline]) ls)"

text \<open>The f-string of the script; it starts with a line break and ends with one.\<close>

definition build_prompt :: "string \<Rightarrow> string \<Rightarrow> string" where
  "build_prompt job_role file_content =
     [newline] @ unlines
       [''You are a professional career coach and resume expert.'',
        [],
        ''Analyze this resume and provide structured, actionable feedback.'',
        [],
        ''Focus on:'',
        ''1. Content clarity and impact'',
        ''2. Skills relevance'',
        ''3. Experience quality'',
        ''4. Formatting & ATS optimization'',
        ''5. Suggestions for this role: ''
          @ (if job_role \<noteq> [] then job_role else ''General job applications''),
        [],
        ''Resume:'',
        file_content,
        [],
        ''Respond in clear bullet points with section headings.'']"

text \<open>
  The fixed feedback of demo mode. The source's bullet sign U+2022 lies outside the
  code points modelled; it is written \<open>*\<close> here. No property below reads this text.
\<close>

definition demo_feedback :: string where
  "demo_feedback =
     [newline] @ unlines
       [''## Resume Feedback (Demo Mode)'',
        [],
        ''* Add a strong professional summary at the top'',
        ''* Use measurable achievements instead of responsibilities'',
        ''* Improve keyword alignment with your job role'',
        ''* Group technical skills into categories'',
        ''* Keep bullet points under 2 lines for readability'']"

section \<open>Session state and one press of the Analyze button\<close>

text \<open>
  \<open>st.session_state\<close>. The script stores \<open>time.time()\<close>, a float counting seconds, in
  \<open>last_request_time\<close>; times are modelled as reals and the subtraction of the rate
  check as exact.
\<close>

record session_state =
  last_request_time :: real
  last_file_hash :: "string option"
  cached_response :: "string option"

definition initial_state :: session_state where
  "initial_state = \<lparr>last_request_time = 0, last_file_hash = None, cached_response = None\<rparr>"

datatype provider_mode = DemoMode | GoogleGemini

text \<open>What one run of the script with the button pressed receives.\<close>

record trigger =
  uploaded_file :: "uploaded option"
  job_role :: string
  ai_provider :: provider_mode
  current_time :: real

text \<open>
  How a run ends, named as the specification names the cases; the comment gives what the
  script shows. \<open>st.stop()\<close> ends the run at once: it raises Streamlit's
  \<open>StopException\<close>, which is not an \<open>Exception\<close> and so passes the \<open>except\<close>
  clause of the script.
\<close>

datatype level = Low | Moderate | Strong

datatype outcome =
    NoFileProvided                  \<comment> \<open>warning: Please upload a resume file first.\<close>
  | TooSoon                         \<comment> \<open>warning: Please wait a few seconds before analyzing again.\<close>
  | Cached "string option"          \<comment> \<open>Resume Analysis (Cached), then \<open>cached_response\<close>\<close>
  | UnreadableDocument              \<comment> \<open>error: The uploaded file is empty.\<close>
  | ProviderUnavailable             \<comment> \<open>error: Google Gemini not available. ...\<close>
  | Failed exn                      \<comment> \<open>\<open>except Exception as e\<close>: error: Error: e\<close>
  | Done nat int level string       \<comment> \<open>word count, score, label, feedback\<close>

text \<open>The operations a run performs, in the order of the script.\<close>

datatype operation =
    ExtractText
  | ComputeScore
  | BuildPrompt
  | CallProvider string
  | StoreCache

record result =
  new_state :: session_state
  outcome :: outcome
  performed :: "operation list"

definition score_level :: "int \<Rightarrow> level" where
  "score_level score = (if score < 40 then Low else if score < 70 then Moderate else Strong)"

text \<open>\<open>st.progress(score)\<close> raises for an integer outside 0..100.\<close>

definition st_progress :: "int \<Rightarrow> exn + unit" where
  "st_progress v = (if 0 \<le> v \<and> v \<le> 100 then Inr () else Inl ProgressValueError)"

text \<open>
  Lines 181 to 186: the hash and the feedback are stored, then the feedback is shown.
\<close>

definition store_and_show ::
  "session_state \<Rightarrow> string \<Rightarrow> nat \<Rightarrow> int \<Rightarrow> operation list \<Rightarrow> string \<Rightarrow> result" where
  "store_and_show s current_hash word_count score ops output_text =
     \<lparr>new_state = s\<lparr>last_file_hash := Some current_hash, cached_response := Some output_text\<rparr>,
      outcome = Done word_count score (score_level score) output_text,
      performed = ops @ [StoreCache]\<rparr>"

text \<open>The body of the \<open>try\<close> block, lines 116 to 189.\<close>

definition analysis :: "env \<Rightarrow> session_state \<Rightarrow> trigger \<Rightarrow> uploaded \<Rightarrow> string \<Rightarrow> result" where
  "analysis E s t f current_hash =
     (case extract_text_from_file E (Some f) of
        Inl err \<Rightarrow> \<lparr>new_state = s, outcome = Failed err, performed = [ExtractText]\<rparr>
      | Inr file_content \<Rightarrow>
          if str_strip file_content = []
          then \<lparr>new_state = s, outcome = UnreadableDocument, performed = [ExtractText]\<rparr>
          else
            let word_count = length (str_split file_content)
            in case ats_score file_content (Some (job_role t)) of
                 Inl err \<Rightarrow>
                   \<lparr>new_state = s, outcome = Failed (ArithmeticFailure err),
                    performed = [ExtractText, ComputeScore]\<rparr>
               | Inr score \<Rightarrow>
                   (case st_progress score of
                      Inl err \<Rightarrow>
                        \<lparr>new_state = s, outcome = Failed err,
                         performed = [ExtractText, ComputeScore]\<rparr>
                    | Inr _ \<Rightarrow>
                        let prompt = build_prompt (job_role t) file_content;
                            ops = [ExtractText, ComputeScore, BuildPrompt]
                        in (case ai_provider t of
                              DemoMode \<Rightarrow>
                                store_and_show s current_hash word_count score ops demo_feedback
                            | GoogleGemini \<Rightarrow>
                                if \<not> genai_imported E \<or> google_api_key E = None
                                   \<or> google_api_key E = Some []
                                then \<lparr>new_state = s, outcome = ProviderUnavailable,
                                      performed = ops\<rparr>
                                else
                                  (case generate_content E prompt of
                                     Inl err \<Rightarrow>
                                       \<lparr>new_state = s, outcome = Failed err,
                                        performed = ops @ [CallProvider prompt]\<rparr>
                                   | Inr output_text \<Rightarrow>
                                       store_and_show s current_hash word_count score
                                         (ops @ [CallProvider prompt]) output_text))))"

text \<open>
  The block \<open>if analyze:\<close>, lines 92 to 189: no file, the rate check, the cache check,
  then the time stamp is set and the analysis runs.
\<close>

definition on_analyze :: "env \<Rightarrow> session_state \<Rightarrow> trigger \<Rightarrow> result" where
  "on_analyze E s t =
     (case uploaded_file t of
        None \<Rightarrow> \<lparr>new_state = s, outcome = NoFileProvided, performed = []\<rparr>
      | Some f \<Rightarrow>
          if current_time t - last_request_time s < 10
          then \<lparr>new_state = s, outcome = TooSoon, performed = []\<rparr>
          else
            let current_hash = file_hash E (file_bytes f)
            in if last_file_hash s = Some current_hash
               then \<lparr>new_state = s, outcome = Cached (cached_response s), performed = []\<rparr>
               else analysis E (s\<lparr>last_request_time := current_time t\<rparr>) t f current_hash)"

text \<open>A session: the presses of the button one after the other, from a given state.\<close>

fun run_session :: "env \<Rightarrow> session_state \<Rightarrow> trigger list \<Rightarrow> session_state" where
  "run_session E s [] = s"
| "run_session E s (t # ts) = run_session E (new_state (on_analyze E s t)) ts"

section \<open>Completed analyses and the cache invariant\<close>

text \<open>
  What a press leaves in the cache when its analysis completes: the hash of the file and
  the feedback shown. \<open>last_completed\<close> runs a session and keeps the entry of the last
  press that completed, starting from \<open>acc\<close>.
\<close>

definition completed_by :: "env \<Rightarrow> session_state \<Rightarrow> trigger \<Rightarrow> (string \<times> string) option" where
  "completed_by E s t =
     (case outcome (on_analyze E s t) of
        Done wc sc lv fb \<Rightarrow>
          (case uploaded_file t of
             Some f \<Rightarrow> Some (file_hash E (file_bytes f), fb)
           | None \<Rightarrow> None)
      | _ \<Rightarrow> None)"

fun last_completed ::
  "env \<Rightarrow> session_state \<Rightarrow> trigger list \<Rightarrow> (string \<times> string) option \<Rightarrow> (string \<times> string) option" where
  "last_completed E s [] acc = acc"
| "last_completed E s (t # ts) acc =
     last_completed E (new_state (on_analyze E s t)) ts
       (case completed_by E s t of Some c \<Rightarrow> Some c | None \<Rightarrow> acc)"

definition cache_consistent :: "session_state \<Rightarrow> bool" where
  "cache_consistent s = ((last_file_hash s = None) = (cached_response s = None))"

section \<open>A concrete environment\<close>

text \<open>
  An environment and three files to run the model on: plain-text files of ASCII bytes, a
  stand-in digest that spells the bytes out, and a Gemini client that is not configured.
\<close>

definition ascii_decode :: "bytes \<Rightarrow> exn + string" where
  "ascii_decode bs =
     (if list_all (\<lambda>b. b < 128) bs then Inr (map (\<lambda>b. char_of (unat b)) bs) else Inl DecodeError)"

definition example_env :: env where
  "example_env =
     \<lparr>pdf_page_texts = (\<lambda>bs. Inl PdfError),
      utf8_decode = ascii_decode,
      md5_hexdigest = (\<lambda>bs. map (\<lambda>b. char_of (unat b)) bs),
      generate_content = (\<lambda>p. Inr ''Looks fine.''),
      genai_imported = False,
      google_api_key = None\<rparr>"

definition resume_txt :: uploaded where
  "resume_txt = \<lparr>name = ''cv.txt'', file_bytes = [100, 97, 116, 97]\<rparr>"

definition other_txt :: uploaded where
  "other_txt = \<lparr>name = ''other.txt'', file_bytes = [100, 98]\<rparr>"

definition blank_txt :: uploaded where
  "blank_txt = \<lparr>name = ''blank.txt'', file_bytes = [32, 10]\<rparr>"

definition press :: "uploaded option \<Rightarrow> provider_mode \<Rightarrow> real \<Rightarrow> trigger" where
  "press file mode now =
     \<lparr>uploaded_file = file, job_role = ''Data'', ai_provider = mode, current_time = now\<rparr>"

section \<open>Strings and floats: basic facts\<close>

lemma round_half_even_nonneg: "0 \<le> a \<Longrightarrow> 0 < b \<Longrightarrow> 0 \<le> round_half_even a b"
  by (simp add: round_half_even_def Let_def pos_imp_zdiv_nonneg_iff)

lemma mantissa_round_nonneg: "0 < b \<Longrightarrow> 0 \<le> mantissa (round_to_double a b)"
  by (simp add: round_to_double_def round_scaled_def Let_def round_half_even_nonneg)

lemma double_trunc_nonneg: "0 \<le> mantissa x \<Longrightarrow> 0 \<le> double_trunc x"
  by (simp add: double_trunc_def pos_imp_zdiv_nonneg_iff)

lemma mantissa_mul_nonneg: "0 \<le> mantissa (double_mul x y)"
  by (simp add: double_mul_def Let_def mantissa_round_nonneg)

lemma ats_score_range: "\<exists>n. ats_score text jr = Inr n \<and> 0 \<le> n \<and> n \<le> 100"
  by (simp add: ats_score_def int_truediv_def Let_def double_trunc_nonneg mantissa_mul_nonneg
      split: option.split)

lemma isspace_lower: "isspace c \<Longrightarrow> lower_char c = c"
  by (auto simp: isspace_def lower_char_def Let_def)

lemma split_from_blank: "\<forall>c\<in>set s. isspace c \<Longrightarrow> split_from [] s = []"
  by (induction s) auto

lemma str_split_blank: "\<forall>c\<in>set s. isspace c \<Longrightarrow> str_split (str_lower s) = []"
  by (simp add: str_split_def str_lower_def split_from_blank isspace_lower)

lemma double_mul_zero: "mantissa x = 0 \<Longrightarrow> double_mul x y = Double 0 0"
  by (simp add: double_mul_def round_to_double_def Let_def)




lemma str_strip_blank: "(str_strip s = []) = (\<forall>c\<in>set s. isspace c)"
proof -
  have "(dropWhile isspace (rev (dropWhile isspace s)) = []) = (dropWhile isspace s = [])"
  proof (cases "dropWhile isspace s")
    case Nil
    show ?thesis unfolding Nil by simp
  next
    case (Cons c cs)
    then have "\<not> isspace c"
      using hd_dropWhile [of isspace s] by auto
    then have "\<not> (\<forall>x\<in>set (rev (dropWhile isspace s)). isspace x)"
      using Cons by auto
    then show ?thesis
      using Cons by (simp add: dropWhile_eq_Nil_conv)
  qed
  then show ?thesis
    by (simp add: str_strip_def dropWhile_eq_Nil_conv)
qed

lemma analysis_time: "last_request_time (new_state (analysis E s t f h)) = last_request_time s"
  by (simp add: analysis_def store_and_show_def Let_def split: sum.split provider_mode.split)

lemma analysis_Done:
  "outcome (analysis E s t f h) = Done wc sc lv fb \<Longrightarrow>
   new_state (analysis E s t f h) = s\<lparr>last_file_hash := Some h, cached_response := Some fb\<rparr>"
  by (auto simp: analysis_def store_and_show_def Let_def split: sum.splits provider_mode.splits if_splits)

lemma analysis_not_Done:
  "\<forall>wc sc lv fb. outcome (analysis E s t f h) \<noteq> Done wc sc lv fb \<Longrightarrow>
   new_state (analysis E s t f h) = s"
  by (auto simp: analysis_def store_and_show_def Let_def split: sum.splits provider_mode.splits if_splits)

section \<open>Rounding error of the float operations\<close>



















section \<open>One press: the three paths\<close>

lemma on_analyze_too_soon:
  "uploaded_file t = Some f \<Longrightarrow> current_time t - last_request_time s < 10 \<Longrightarrow>
   on_analyze E s t = \<lparr>new_state = s, outcome = TooSoon, performed = []\<rparr>"
  by (simp add: on_analyze_def)

lemma on_analyze_cached:
  "uploaded_file t = Some f \<Longrightarrow> \<not> current_time t - last_request_time s < 10 \<Longrightarrow>
   last_file_hash s = Some (file_hash E (file_bytes f)) \<Longrightarrow>
   on_analyze E s t = \<lparr>new_state = s, outcome = Cached (cached_response s), performed = []\<rparr>"
  by (simp add: on_analyze_def)

lemma on_analyze_fresh:
  "uploaded_file t = Some f \<Longrightarrow> \<not> current_time t - last_request_time s < 10 \<Longrightarrow>
   last_file_hash s \<noteq> Some (file_hash E (file_bytes f)) \<Longrightarrow>
   on_analyze E s t =
     analysis E (s\<lparr>last_request_time := current_time t\<rparr>) t f (file_hash E (file_bytes f))"
  by (simp add: on_analyze_def)

lemma on_analyze_Done:
  "outcome (on_analyze E s t) = Done wc sc lv fb \<Longrightarrow> uploaded_file t = Some f \<Longrightarrow>
   new_state (on_analyze E s t) =
     s\<lparr>last_request_time := current_time t,
       last_file_hash := Some (file_hash E (file_bytes f)), cached_response := Some fb\<rparr>"
  by (auto simp: on_analyze_def Let_def dest: analysis_Done split: if_splits)


lemma on_analyze_not_Done:
  "\<forall>wc sc lv fb. outcome (on_analyze E s t) \<noteq> Done wc sc lv fb \<Longrightarrow>
   last_file_hash (new_state (on_analyze E s t)) = last_file_hash s \<and>
   cached_response (new_state (on_analyze E s t)) = cached_response s"
  by (auto simp: on_analyze_def Let_def analysis_not_Done split: option.splits if_splits)

lemma on_analyze_Done_file:
  "outcome (on_analyze E s t) = Done wc sc lv fb \<Longrightarrow> \<exists>f. uploaded_file t = Some f"
  by (auto simp: on_analyze_def Let_def split: option.splits if_splits)

lemma analysis_store:
  "(StoreCache \<in> set (performed (analysis E s t f h))) =
   (\<exists>wc sc lv fb. outcome (analysis E s t f h) = Done wc sc lv fb)"
  by (auto simp: analysis_def store_and_show_def Let_def split: sum.splits provider_mode.splits)

lemma on_analyze_store:
  "(StoreCache \<in> set (performed (on_analyze E s t))) =
   (\<exists>wc sc lv fb. outcome (on_analyze E s t) = Done wc sc lv fb)"
  by (simp add: on_analyze_def Let_def analysis_store split: option.splits)

lemma cache_step:
  "last_file_hash (new_state (on_analyze E s t)) =
     (case completed_by E s t of Some c \<Rightarrow> Some (fst c) | None \<Rightarrow> last_file_hash s) \<and>
   cached_response (new_state (on_analyze E s t)) =
     (case completed_by E s t of Some c \<Rightarrow> Some (snd c) | None \<Rightarrow> cached_response s)"
proof (cases "\<exists>wc sc lv fb. outcome (on_analyze E s t) = Done wc sc lv fb")
  case True
  then obtain wc sc lv fb where d: "outcome (on_analyze E s t) = Done wc sc lv fb"
    by blast
  then obtain f where f: "uploaded_file t = Some f"
    using on_analyze_Done_file by blast
  show ?thesis
    using on_analyze_Done [OF d f] by (simp add: completed_by_def d f)
next
  case False
  then have n: "\<forall>wc sc lv fb. outcome (on_analyze E s t) \<noteq> Done wc sc lv fb"
    by blast
  then have "completed_by E s t = None"
    by (cases "outcome (on_analyze E s t)") (simp_all add: completed_by_def)
  then show ?thesis
    using on_analyze_not_Done [OF n] by simp
qed

lemma cache_run:
  "last_file_hash s = map_option fst acc \<Longrightarrow> cached_response s = map_option snd acc \<Longrightarrow>
   last_file_hash (run_session E s ts) = map_option fst (last_completed E s ts acc) \<and>
   cached_response (run_session E s ts) = map_option snd (last_completed E s ts acc)"
proof (induction ts arbitrary: s acc)
  case Nil
  then show ?case by simp
next
  case (Cons t ts)
  let ?acc = "case completed_by E s t of Some c \<Rightarrow> Some c | None \<Rightarrow> acc"
  have "last_file_hash (new_state (on_analyze E s t)) = map_option fst ?acc"
    and "cached_response (new_state (on_analyze E s t)) = map_option snd ?acc"
    using cache_step [of E s t] Cons.prems by (simp_all split: option.splits)
  then show ?case
    using Cons.IH [of "new_state (on_analyze E s t)" ?acc] by simp
qed

lemma consistent_step: "cache_consistent s \<Longrightarrow> cache_consistent (new_state (on_analyze E s t))"
  using cache_step [of E s t] by (simp add: cache_consistent_def split: option.splits)

lemma consistent_run: "cache_consistent s \<Longrightarrow> cache_consistent (run_session E s ts)"
  by (induction ts arbitrary: s) (simp_all add: consistent_step)

lemma analysis_not_Cached: "outcome (analysis E s t f h) \<noteq> Cached x"
  by (simp add: analysis_def store_and_show_def Let_def split: sum.split provider_mode.split)

lemma on_analyze_Cached:
  "outcome (on_analyze E s t) = Cached x \<Longrightarrow> x = cached_response s \<and> last_file_hash s \<noteq> None"
proof (cases "uploaded_file t")
  case None
  assume "outcome (on_analyze E s t) = Cached x"
  then show ?thesis
    using None by (simp add: on_analyze_def)
next
  case (Some f)
  assume c: "outcome (on_analyze E s t) = Cached x"
  show ?thesis
  proof (cases "current_time t - last_request_time s < 10")
    case True
    then show ?thesis
      using c on_analyze_too_soon [OF Some, of s E] by simp
  next
    case False
    show ?thesis
    proof (cases "last_file_hash s = Some (file_hash E (file_bytes f))")
      case True
      then show ?thesis
        using c on_analyze_cached [OF Some False True] by simp
    next
      case miss: False
      then show ?thesis
        using c on_analyze_fresh [OF Some False miss] analysis_not_Cached by simp
    qed
  qed
qed

section \<open>The score: totality, range and blank job roles\<close>




text \<open>
  C8. For every resume text, a job role that is absent (\<open>None\<close>), empty, or made of
  whitespace only gives the score 0. The empty string is a string all of whose characters
  are whitespace, so the second disjunct covers it.
\<close>

theorem ats_score_blank_role:
  "jr = None \<or> (\<exists>r. jr = Some r \<and> (\<forall>c\<in>set r. isspace c)) \<Longrightarrow> ats_score text jr = Inr 0"
  by (auto simp: ats_score_def keywords_of_def hits_of_def str_split_blank int_truediv_def
      round_to_double_def double_mul_zero double_trunc_def)

theorem ats_score_blank_role_witness:
  "ats_score ''Data engineer, ten years'' (Some [CHR '' '', CHR 0x09, CHR '' '']) = Inr 0 \<and>
   ats_score ''Data engineer, ten years'' None = Inr 0"
  using ats_score_blank_role [of "Some [CHR '' '', CHR 0x09, CHR '' '']" "''Data engineer, ten years''"]
    ats_score_blank_role [of None "''Data engineer, ten years''"]
  by (simp add: isspace_def)

text \<open>
  C9. The score function is total: it never raises \<open>ZeroDivisionError\<close>, because the
  divisor is \<open>max(1, len(keywords))\<close>, and it always returns an integer between 0 and 100,
  also for a job role of whitespace only, whose list of keywords is empty.
\<close>

theorem ats_score_total:
  "(\<exists>n. ats_score resume jr = Inr n \<and> 0 \<le> n \<and> n \<le> 100) \<and>
   (\<exists>q. int_truediv hits (max 1 (int (length (keywords_of r)))) = Inr q)"
  using ats_score_range [of resume jr] by (simp add: int_truediv_def)

theorem ats_score_total_witness:
  "(\<exists>n. ats_score ''Data engineer'' (Some [CHR '' '']) = Inr n \<and> 0 \<le> n \<and> n \<le> 100) \<and>
   (\<exists>q. int_truediv 0 (max 1 (int (length (keywords_of [CHR '' ''])))) = Inr q)"
  using ats_score_total [of "''Data engineer''" "Some [CHR '' '']" 0 "[CHR '' '']"]
  by simp

section \<open>The rate gate and the cache\<close>

text \<open>
  C2, as the code has it. When an analysis of a document has completed, pressing the
  button again on a document with the same content hash is rejected with \<open>TooSoon\<close> while
  fewer than 10 seconds have passed since that analysis was accepted; from 10 seconds on it
  shows the cached feedback unchanged. In both cases nothing is extracted, scored or sent
  to the provider, and the session state stays as it was.
\<close>

theorem rerun_unchanged_document:
  assumes "outcome (on_analyze E s t1) = Done wc sc lv fb"
    and "uploaded_file t1 = Some f1"
    and "uploaded_file t2 = Some f2"
    and "file_hash E (file_bytes f2) = file_hash E (file_bytes f1)"
  shows "(current_time t2 - current_time t1 < 10 \<longrightarrow>
           on_analyze E (new_state (on_analyze E s t1)) t2 =
             \<lparr>new_state = new_state (on_analyze E s t1), outcome = TooSoon, performed = []\<rparr>) \<and>
         (\<not> current_time t2 - current_time t1 < 10 \<longrightarrow>
           on_analyze E (new_state (on_analyze E s t1)) t2 =
             \<lparr>new_state = new_state (on_analyze E s t1), outcome = Cached (Some fb),
              performed = []\<rparr>)"
proof -
  let ?s = "new_state (on_analyze E s t1)"
  have t: "last_request_time ?s = current_time t1"
    and h: "last_file_hash ?s = Some (file_hash E (file_bytes f2))"
    and c: "cached_response ?s = Some fb"
    by (simp_all add: on_analyze_Done [OF assms(1,2)] assms(4))
  show ?thesis
    using on_analyze_too_soon [OF assms(3), of ?s E] on_analyze_cached [OF assms(3) _ h]
    by (simp add: t c)
qed

theorem rerun_unchanged_document_witness:
  "on_analyze example_env
     (new_state (on_analyze example_env initial_state (press (Some resume_txt) DemoMode 1000)))
     (press (Some resume_txt) DemoMode 1005) =
   \<lparr>new_state = new_state (on_analyze example_env initial_state (press (Some resume_txt) DemoMode 1000)),
    outcome = TooSoon, performed = []\<rparr> \<and>
   on_analyze example_env
     (new_state (on_analyze example_env initial_state (press (Some resume_txt) DemoMode 1000)))
     (press (Some resume_txt) DemoMode 1020) =
   \<lparr>new_state = new_state (on_analyze example_env initial_state (press (Some resume_txt) DemoMode 1000)),
    outcome = Cached (Some demo_feedback), performed = []\<rparr>"
proof -
  have d: "outcome (on_analyze example_env initial_state (press (Some resume_txt) DemoMode 1000))
     = Done 1 100 Strong demo_feedback"
    by code_simp
  have f1: "uploaded_file (press (Some resume_txt) DemoMode 1000) = Some resume_txt"
    and f2: "uploaded_file (press (Some resume_txt) DemoMode 1020) = Some resume_txt"
    and f3: "uploaded_file (press (Some resume_txt) DemoMode 1005) = Some resume_txt"
    by (simp_all add: press_def)
  show ?thesis
    using rerun_unchanged_document [OF d f1 f2 refl] rerun_unchanged_document [OF d f1 f3 refl]
    by (simp add: press_def)
qed

text \<open>
  C2 as stated fails: a document analysed at time 1000 and submitted again, unchanged, at
  time 1005 is answered with \<open>TooSoon\<close>, not with the cached feedback.
\<close>

theorem rerun_within_window_counterexample:
  "outcome (on_analyze example_env initial_state (press (Some resume_txt) DemoMode 1000))
     = Done 1 100 Strong demo_feedback \<and>
   outcome (on_analyze example_env
     (new_state (on_analyze example_env initial_state (press (Some resume_txt) DemoMode 1000)))
     (press (Some resume_txt) DemoMode 1005)) = TooSoon"
  by code_simp

text \<open>
  C3, as the code has it. A press that carries a file and comes less than 10 seconds after
  \<open>last_request_time\<close> is rejected with \<open>TooSoon\<close> whatever the cache holds, with no
  extraction, scoring or provider call and no change of state. In particular, when a press
  starts a fresh analysis (it passes the rate check and misses the cache), a press 2
  seconds later is rejected, whatever its file.
\<close>

theorem rate_gate_rejects:
  "(uploaded_file t = Some f \<and> current_time t - last_request_time s < 10 \<longrightarrow>
      on_analyze E s t = \<lparr>new_state = s, outcome = TooSoon, performed = []\<rparr>) \<and>
   (uploaded_file t1 = Some f1 \<and> \<not> current_time t1 - last_request_time s1 < 10 \<and>
    last_file_hash s1 \<noteq> Some (file_hash E (file_bytes f1)) \<and>
    uploaded_file t2 = Some f2 \<and> current_time t2 = current_time t1 + 2 \<longrightarrow>
      on_analyze E (new_state (on_analyze E s1 t1)) t2 =
        \<lparr>new_state = new_state (on_analyze E s1 t1), outcome = TooSoon, performed = []\<rparr>)"
proof (intro conjI impI)
  assume "uploaded_file t = Some f \<and> current_time t - last_request_time s < 10"
  then show "on_analyze E s t = \<lparr>new_state = s, outcome = TooSoon, performed = []\<rparr>"
    by (simp add: on_analyze_too_soon)
next
  assume a: "uploaded_file t1 = Some f1 \<and> \<not> current_time t1 - last_request_time s1 < 10 \<and>
    last_file_hash s1 \<noteq> Some (file_hash E (file_bytes f1)) \<and>
    uploaded_file t2 = Some f2 \<and> current_time t2 = current_time t1 + 2"
  let ?s = "new_state (on_analyze E s1 t1)"
  have "last_request_time ?s = current_time t1"
    using a by (simp add: on_analyze_fresh analysis_time)
  then have "current_time t2 - last_request_time ?s < 10"
    using a by simp
  then show "on_analyze E ?s t2 = \<lparr>new_state = ?s, outcome = TooSoon, performed = []\<rparr>"
    using a by (simp add: on_analyze_too_soon)
qed

theorem rate_gate_rejects_witness:
  "on_analyze example_env (initial_state\<lparr>last_request_time := 995\<rparr>)
     (press (Some resume_txt) DemoMode 1000) =
     \<lparr>new_state = initial_state\<lparr>last_request_time := 995\<rparr>, outcome = TooSoon, performed = []\<rparr> \<and>
   on_analyze example_env
     (new_state (on_analyze example_env initial_state (press (Some resume_txt) DemoMode 1000)))
     (press (Some other_txt) DemoMode 1002) =
     \<lparr>new_state = new_state (on_analyze example_env initial_state
        (press (Some resume_txt) DemoMode 1000)),
      outcome = TooSoon, performed = []\<rparr>"
  using rate_gate_rejects [of "press (Some resume_txt) DemoMode 1000" resume_txt
      "initial_state\<lparr>last_request_time := 995\<rparr>" example_env
      "press (Some resume_txt) DemoMode 1000" resume_txt initial_state
      "press (Some other_txt) DemoMode 1002" other_txt]
  by (simp add: press_def initial_state_def)

text \<open>
  C3 as stated fails twice. A press without a file inside the window is answered with
  \<open>NoFileProvided\<close>, since the file is checked before the time. And of two presses 2 seconds
  apart on two different files the second is not rejected when the first was a cache hit:
  a cache hit does not set \<open>last_request_time\<close>. Here a document is analysed at time 500,
  shown from the cache at time 1000, and another document is analysed at time 1002.
\<close>

theorem rate_gate_counterexample:
  "outcome (on_analyze example_env (initial_state\<lparr>last_request_time := 995\<rparr>)
     (press None DemoMode 1000)) = NoFileProvided \<and>
   outcome (on_analyze example_env
     (run_session example_env initial_state [press (Some resume_txt) DemoMode 500])
     (press (Some resume_txt) DemoMode 1000)) = Cached (Some demo_feedback) \<and>
   outcome (on_analyze example_env
     (run_session example_env initial_state
        [press (Some resume_txt) DemoMode 500, press (Some resume_txt) DemoMode 1000])
     (press (Some other_txt) DemoMode 1002)) = Done 1 0 Low demo_feedback"
  by code_simp

text \<open>
  C6. A press that passes the rate check with a content hash equal to the stored hash
  shows \<open>cached_response\<close>; no extraction, scoring or provider call is performed, and the
  session state, \<open>last_request_time\<close> included, is unchanged.
\<close>

theorem cache_hit_short_circuit:
  assumes "uploaded_file t = Some f"
    and "\<not> current_time t - last_request_time s < 10"
    and "last_file_hash s = Some (file_hash E (file_bytes f))"
  shows "on_analyze E s t =
           \<lparr>new_state = s, outcome = Cached (cached_response s), performed = []\<rparr> \<and>
         last_request_time (new_state (on_analyze E s t)) = last_request_time s"
  by (simp add: on_analyze_cached [OF assms])

theorem cache_hit_short_circuit_witness:
  "on_analyze example_env
     \<lparr>last_request_time = 1000, last_file_hash = Some (file_hash example_env (file_bytes resume_txt)),
      cached_response = Some ''Looks fine.''\<rparr>
     (press (Some resume_txt) GoogleGemini 5000) =
   \<lparr>new_state = \<lparr>last_request_time = 1000,
      last_file_hash = Some (file_hash example_env (file_bytes resume_txt)),
      cached_response = Some ''Looks fine.''\<rparr>,
    outcome = Cached (Some ''Looks fine.''), performed = []\<rparr>"
  using cache_hit_short_circuit [of "press (Some resume_txt) GoogleGemini 5000" resume_txt
      "\<lparr>last_request_time = 1000,
        last_file_hash = Some (file_hash example_env (file_bytes resume_txt)),
        cached_response = Some ''Looks fine.''\<rparr>" example_env]
  by (simp add: press_def)

section \<open>Failures of the analysis\<close>

text \<open>
  C7. When the analysis of an uploaded file runs (the press passed the rate check and
  missed the cache) and the extracted text is empty or whitespace only, the run ends with
  \<open>UnreadableDocument\<close> right after the extraction: no score is computed and the cache is
  not written.
\<close>

theorem blank_text_unreadable:
  assumes "uploaded_file t = Some f"
    and "\<not> current_time t - last_request_time s < 10"
    and "last_file_hash s \<noteq> Some (file_hash E (file_bytes f))"
    and "extract_text_from_file E (Some f) = Inr content"
    and "\<forall>c\<in>set content. isspace c"
  shows "on_analyze E s t =
    \<lparr>new_state = s\<lparr>last_request_time := current_time t\<rparr>, outcome = UnreadableDocument,
     performed = [ExtractText]\<rparr>"
proof -
  have "str_strip content = []"
    using assms(5) by (simp add: str_strip_blank)
  then show ?thesis
    by (simp add: on_analyze_fresh [OF assms(1,2,3)] analysis_def assms(4))
qed

theorem blank_text_unreadable_witness:
  "on_analyze example_env initial_state (press (Some blank_txt) DemoMode 1000) =
    \<lparr>new_state = initial_state\<lparr>last_request_time := 1000\<rparr>, outcome = UnreadableDocument,
     performed = [ExtractText]\<rparr>"
proof -
  have e: "extract_text_from_file example_env (Some blank_txt) = Inr [CHR '' '', CHR 0x0A]"
    by code_simp
  have c: "\<forall>c\<in>set [CHR '' '', CHR 0x0A]. isspace c"
    by (simp add: isspace_def)
  show ?thesis
    using blank_text_unreadable [of "press (Some blank_txt) DemoMode 1000" blank_txt
        initial_state example_env, OF _ _ _ e c]
    by (simp add: press_def initial_state_def)
qed

text \<open>
  C4, as the code has it. In Gemini mode, when the client library was not imported or the
  API key is missing or empty, an analysis whose extracted text is not blank ends with
  \<open>ProviderUnavailable\<close>. The check comes after the score is computed and the prompt is
  built, and before any call to the provider; the cache is not written.
\<close>

theorem provider_unavailable_after_prompt:
  assumes "uploaded_file t = Some f"
    and "\<not> current_time t - last_request_time s < 10"
    and "last_file_hash s \<noteq> Some (file_hash E (file_bytes f))"
    and "extract_text_from_file E (Some f) = Inr content"
    and "\<exists>c\<in>set content. \<not> isspace c"
    and "ai_provider t = GoogleGemini"
    and "\<not> genai_imported E \<or> google_api_key E = None \<or> google_api_key E = Some []"
  shows "on_analyze E s t =
    \<lparr>new_state = s\<lparr>last_request_time := current_time t\<rparr>, outcome = ProviderUnavailable,
     performed = [ExtractText, ComputeScore, BuildPrompt]\<rparr>"
proof -
  obtain n where n: "ats_score content (Some (job_role t)) = Inr n" "0 \<le> n" "n \<le> 100"
    using ats_score_range by blast
  have b: "str_strip content \<noteq> []"
    using assms(5) by (simp add: str_strip_blank)
  have "analysis E (s\<lparr>last_request_time := current_time t\<rparr>) t f (file_hash E (file_bytes f)) =
    \<lparr>new_state = s\<lparr>last_request_time := current_time t\<rparr>, outcome = ProviderUnavailable,
     performed = [ExtractText, ComputeScore, BuildPrompt]\<rparr>"
    using assms(6,7) by (auto simp: analysis_def assms(4) b n st_progress_def Let_def)
  then show ?thesis
    by (simp add: on_analyze_fresh [OF assms(1,2,3)])
qed

theorem provider_unavailable_after_prompt_witness:
  "on_analyze example_env initial_state (press (Some resume_txt) GoogleGemini 1000) =
    \<lparr>new_state = initial_state\<lparr>last_request_time := 1000\<rparr>, outcome = ProviderUnavailable,
     performed = [ExtractText, ComputeScore, BuildPrompt]\<rparr>"
proof -
  have e: "extract_text_from_file example_env (Some resume_txt) = Inr ''data''"
    by code_simp
  have c: "\<exists>c\<in>set ''data''. \<not> isspace c"
    by (simp add: isspace_def)
  show ?thesis
    using provider_unavailable_after_prompt [of "press (Some resume_txt) GoogleGemini 1000"
        resume_txt initial_state example_env "''data''", OF _ _ _ e c]
    by (simp add: press_def initial_state_def example_env_def)
qed

text \<open>
  C4 as stated fails: with the provider not configured, the run that ends with
  \<open>ProviderUnavailable\<close> has built the prompt already; and for a file of whitespace the
  run ends with \<open>UnreadableDocument\<close> before the provider is looked at.
\<close>

theorem provider_check_counterexample:
  "outcome (on_analyze example_env initial_state (press (Some resume_txt) GoogleGemini 1000))
     = ProviderUnavailable \<and>
   BuildPrompt \<in> set (performed
     (on_analyze example_env initial_state (press (Some resume_txt) GoogleGemini 1000))) \<and>
   outcome (on_analyze example_env initial_state (press (Some blank_txt) GoogleGemini 1000))
     = UnreadableDocument"
  by code_simp

section \<open>Invariants of the session state\<close>

text \<open>
  C5. After any sequence of presses from the initial state, the cache holds the hash and
  the feedback of the last analysis that completed (nothing, when none has). A press that
  does not end in a completed analysis (no file, too soon, cache hit, unreadable document,
  provider unavailable, any exception) leaves both cache fields as they were and performs
  no cache write. The cache write is the last operation of a completed analysis, so no
  shorter run reaches it.
\<close>

theorem cache_is_last_completed:
  "last_file_hash (run_session E initial_state ts) =
     map_option fst (last_completed E initial_state ts None) \<and>
   cached_response (run_session E initial_state ts) =
     map_option snd (last_completed E initial_state ts None) \<and>
   ((\<forall>wc sc lv fb. outcome (on_analyze E s t) \<noteq> Done wc sc lv fb) \<longrightarrow>
      last_file_hash (new_state (on_analyze E s t)) = last_file_hash s \<and>
      cached_response (new_state (on_analyze E s t)) = cached_response s \<and>
      StoreCache \<notin> set (performed (on_analyze E s t)))"
  using cache_run [of initial_state None E ts] on_analyze_not_Done [of E s t]
    on_analyze_store [of E s t]
  by (simp add: initial_state_def)

theorem cache_is_last_completed_witness:
  "last_file_hash (run_session example_env initial_state
      [press (Some resume_txt) DemoMode 1000, press (Some other_txt) GoogleGemini 2000]) =
     Some (file_hash example_env (file_bytes resume_txt)) \<and>
   cached_response (run_session example_env initial_state
      [press (Some resume_txt) DemoMode 1000, press (Some other_txt) GoogleGemini 2000]) =
     Some demo_feedback \<and>
   outcome (on_analyze example_env
      (run_session example_env initial_state [press (Some resume_txt) DemoMode 1000])
      (press (Some other_txt) GoogleGemini 2000)) = ProviderUnavailable \<and>
   last_file_hash (new_state (on_analyze example_env
      (run_session example_env initial_state [press (Some resume_txt) DemoMode 1000])
      (press (Some other_txt) GoogleGemini 2000))) =
     last_file_hash (run_session example_env initial_state [press (Some resume_txt) DemoMode 1000]) \<and>
   cached_response (new_state (on_analyze example_env
      (run_session example_env initial_state [press (Some resume_txt) DemoMode 1000])
      (press (Some other_txt) GoogleGemini 2000))) =
     cached_response (run_session example_env initial_state [press (Some resume_txt) DemoMode 1000])"
proof -
  have l: "last_completed example_env initial_state
      [press (Some resume_txt) DemoMode 1000, press (Some other_txt) GoogleGemini 2000] None =
      Some (file_hash example_env (file_bytes resume_txt), demo_feedback)"
    by code_simp
  have o: "outcome (on_analyze example_env
      (run_session example_env initial_state [press (Some resume_txt) DemoMode 1000])
      (press (Some other_txt) GoogleGemini 2000)) = ProviderUnavailable"
    by code_simp
  have p: "last_file_hash (new_state (on_analyze example_env initial_state
      (press (Some resume_txt) DemoMode 1000))) = Some (file_hash example_env (file_bytes resume_txt))"
    "cached_response (new_state (on_analyze example_env initial_state
      (press (Some resume_txt) DemoMode 1000))) = Some demo_feedback"
    by code_simp+
  show ?thesis
    using p cache_is_last_completed [of example_env
        "[press (Some resume_txt) DemoMode 1000, press (Some other_txt) GoogleGemini 2000]"
        "run_session example_env initial_state [press (Some resume_txt) DemoMode 1000]"
        "press (Some other_txt) GoogleGemini 2000"]
    by (simp only: l o) simp
qed

text \<open>
  C10. The stored hash is \<open>None\<close> exactly when the cached feedback is \<open>None\<close>: this
  holds in the initial state, every press keeps it, so it holds after any sequence of
  presses, and a cache hit in a state so reached always shows a feedback text.
\<close>

theorem hash_and_feedback_set_together:
  "cache_consistent initial_state \<and>
   (cache_consistent s \<longrightarrow> cache_consistent (new_state (on_analyze E s t))) \<and>
   cache_consistent (run_session E initial_state ts) \<and>
   (outcome (on_analyze E (run_session E initial_state ts) t') = Cached x \<longrightarrow> x \<noteq> None)"
proof -
  have i: "cache_consistent initial_state"
    by (simp add: cache_consistent_def initial_state_def)
  then have r: "cache_consistent (run_session E initial_state ts)"
    by (rule consistent_run)
  have "x \<noteq> None" if "outcome (on_analyze E (run_session E initial_state ts) t') = Cached x"
    using on_analyze_Cached [OF that] r by (auto simp: cache_consistent_def)
  then show ?thesis
    using i r consistent_step by blast
qed

theorem hash_and_feedback_set_together_witness:
  "cache_consistent initial_state \<and>
   cache_consistent (new_state (on_analyze example_env initial_state
      (press (Some resume_txt) DemoMode 1000))) \<and>
   cache_consistent (run_session example_env initial_state
      [press (Some resume_txt) DemoMode 1000]) \<and>
   outcome (on_analyze example_env
      (run_session example_env initial_state [press (Some resume_txt) DemoMode 1000])
      (press (Some resume_txt) DemoMode 2000)) = Cached (Some demo_feedback)"
proof -
  have o: "outcome (on_analyze example_env
      (run_session example_env initial_state [press (Some resume_txt) DemoMode 1000])
      (press (Some resume_txt) DemoMode 2000)) = Cached (Some demo_feedback)"
    by code_simp
  show ?thesis
    using hash_and_feedback_set_together [of initial_state example_env
        "press (Some resume_txt) DemoMode 1000" "[press (Some resume_txt) DemoMode 1000]"
        "press (Some resume_txt) DemoMode 2000" "Some demo_feedback"] o
    by simp
qed

end
